theory Spec2Isabelle
  imports Complex_Main "HOL-Library.Word"
begin

section \<open>Errors\<close>

text \<open>
  Go's \<open>error\<close> values, as far as the two packages build or pass them on.
  \<open>New msg\<close> is \<open>errors.New(msg)\<close>; an error handed in by a collaborator (the publish
  callback, the encoder, the HTTP client, the JSON decoder) is some value of this type.
  The two parse failures of \<open>Bootstrap\<close> keep the \<open>strconv\<close> error they wrap instead
  of its formatted text.
\<close>

datatype num_error = ErrSyntax | ErrRange

datatype error =
    ErrMalformedEntity
  | New string
  | InvalidRetries num_error
  | InvalidRetryDelay num_error

section \<open>Package terminal\<close>

subsection \<open>Data\<close>

text \<open>\<open>time.Duration\<close> is an \<open>int64\<close> count of nanoseconds; arithmetic wraps.\<close>

type_synonym duration = "64 word"

definition terminal :: string where
  "terminal = ''term''"

definition second :: duration where
  "second = 1 * 1000000000"

text \<open>
  The struct \<open>term\<close>. \<open>ptmx\<close> is \<open>None\<close> for the nil file, otherwise the bytes written
  to the pty master so far. \<open>done_sent\<close> counts the values sent on the channel \<open>done\<close>.
  \<open>timer\<close> is \<open>None\<close> for the nil ticker. The payload type of the \<open>publish\<close> callback is
  the type the encoder produces. The logger is left out (it only prints); the mutex
  \<open>mu\<close> lives in the scheduler state of the interleaving model below.
\<close>

datatype ticker = Ticking | Stopped

record 'p term_t =
  uuid :: string
  ptmx :: "string option"
  done_sent :: nat
  topic :: string
  timeout :: duration
  resetTimeout :: duration
  timer :: "ticker option"
  publish :: "string \<Rightarrow> 'p \<Rightarrow> error option"

text \<open>What \<open>pty.Start\<close> answers: the pty, or the text of its error.\<close>

datatype pty_start = Started | StartFailed string

text \<open>The two goroutines \<open>NewSession\<close> starts.\<close>

datatype task = CopyOutput | Countdown

text \<open>
  What the operating system does with one write to the pty: it takes all the bytes, or
  takes the first \<open>m\<close> and fails with an error of the given text.
\<close>

datatype write_outcome = Accepted | Failed nat string

subsection \<open>Operations\<close>

text \<open>
  \<open>NewSession\<close> returns the interface value (never nil: it holds the pointer \<open>t\<close> on both
  paths), the error, and the goroutines it has started.
\<close>

definition NewSession ::
  "string \<Rightarrow> duration \<Rightarrow> (string \<Rightarrow> 'p \<Rightarrow> error option) \<Rightarrow> pty_start
    \<Rightarrow> 'p term_t option \<times> error option \<times> task list" where
  "NewSession u d pub st =
     (let t = \<lparr>uuid = u, ptmx = None, done_sent = 0, topic = ''term/'' @ u,
                timeout = d, resetTimeout = d, timer = None, publish = pub\<rparr>
      in case st of
           StartFailed msg \<Rightarrow> (Some t, Some (New msg), [])
         | Started \<Rightarrow>
             (Some (t\<lparr>ptmx := Some [], timer := Some Ticking\<rparr>), None, [CopyOutput, Countdown]))"

definition resetCounter :: "'p term_t \<Rightarrow> duration \<Rightarrow> 'p term_t" where
  "resetCounter t d = (if 0 <s d then t\<lparr>timeout := d\<rparr> else t)"

text \<open>The statements of \<open>decrementCounter\<close>, one by one.\<close>

definition dec_timeout :: "'p term_t \<Rightarrow> 'p term_t" where
  "dec_timeout t = t\<lparr>timeout := timeout t - second\<rparr>"

definition send_done :: "'p term_t \<Rightarrow> 'p term_t" where
  "send_done t = t\<lparr>done_sent := Suc (done_sent t)\<rparr>"

text \<open>\<open>t.timer.Stop()\<close>: a nil ticker panics (\<open>None\<close>).\<close>

definition timer_Stop :: "'p term_t \<Rightarrow> 'p term_t option" where
  "timer_Stop t = (case timer t of None \<Rightarrow> None | Some _ \<Rightarrow> Some (t\<lparr>timer := Some Stopped\<rparr>))"

definition decrementCounter :: "'p term_t \<Rightarrow> 'p term_t option" where
  "decrementCounter t =
     (let t1 = dec_timeout t
      in if timeout t1 = 0 then timer_Stop (send_done t1) else Some t1)"

text \<open>\<open>IsDone\<close> hands out the channel \<open>done\<close>: here, what has been sent on it.\<close>

definition IsDone :: "'p term_t \<Rightarrow> nat" where
  "IsDone t = done_sent t"

text \<open>
  \<open>Write\<close> returns the session, \<open>n\<close>, the error and the calls it made to \<open>publish\<close>
  (topic and payload). The encoder \<open>encoder.EncodeSenML\<close> is a parameter.
\<close>

definition Write ::
  "(string \<Rightarrow> string \<Rightarrow> string \<Rightarrow> error + 'p) \<Rightarrow> 'p term_t \<Rightarrow> string
    \<Rightarrow> 'p term_t \<times> int \<times> error option \<times> (string \<times> 'p) list" where
  "Write enc t p =
     (let t1 = resetCounter t (resetTimeout t);
          n = int (length p)
      in case enc (uuid t1) terminal p of
           Inl err \<Rightarrow> (t1, n, Some err, [])
         | Inr payload \<Rightarrow>
             (case publish t1 (topic t1) payload of
                Some err \<Rightarrow> (t1, n, Some err, [(topic t1, payload)])
              | None \<Rightarrow> (t1, n, None, [(topic t1, payload)])))"

text \<open>
  \<open>Send\<close>: \<open>io.Copy\<close> from a \<open>bytes.Reader\<close> makes no write for an empty \<open>p\<close> and one
  write of all of \<open>p\<close> otherwise; a write to the nil file fails with \<open>os.ErrInvalid\<close>.
\<close>

definition Send :: "write_outcome \<Rightarrow> 'p term_t \<Rightarrow> string \<Rightarrow> 'p term_t \<times> error option" where
  "Send w t p =
     (if p = [] then (t, None)
      else case ptmx t of
             None \<Rightarrow> (t, Some (New ''invalid argument''))
           | Some inp \<Rightarrow>
               (case w of
                  Accepted \<Rightarrow> (t\<lparr>ptmx := Some (inp @ p)\<rparr>, None)
                | Failed m msg \<Rightarrow> (t\<lparr>ptmx := Some (inp @ take m p)\<rparr>, Some (New msg))))"

text \<open>
  The countdown goroutine, \<open>for range t.timer.C { t.decrementCounter() }\<close>, with nobody
  else holding the mutex: a clock period delivers a tick only while the ticker runs.
\<close>

definition tick :: "'p term_t \<Rightarrow> 'p term_t option" where
  "tick t = (if timer t = Some Ticking then decrementCounter t else Some t)"

fun ticks :: "nat \<Rightarrow> 'p term_t \<Rightarrow> 'p term_t option" where
  "ticks 0 t = Some t"
| "ticks (Suc n) t = (case tick t of None \<Rightarrow> None | Some t' \<Rightarrow> ticks n t')"

subsection \<open>The countdown under interleaving\<close>

text \<open>
  The two goroutines that touch \<open>timeout\<close>: the countdown goroutine, which calls
  \<open>decrementCounter\<close> for every tick it receives, and a writer (the output copy), whose
  \<open>Write\<close> starts with \<open>resetCounter(t.resetTimeout)\<close>. Each has a program counter; a
  step of an actor executes the one statement its counter points at. \<open>mu.Lock()\<close> can be
  taken only while nobody holds the mutex, and the countdown goroutine receives a tick
  only while the ticker runs (after \<open>Stop\<close> no more ticks are sent). The send on
  \<open>done\<close> is a step like the others: the receiver is taken to be waiting, as is the
  goroutine of the owner that ranges over \<open>IsDone()\<close>. \<open>None\<close> means the actor cannot
  take its step now. The rest of \<open>Write\<close> (encode, publish) runs after the unlock and
  touches no field of the countdown.
\<close>

datatype actor = Ticker | Writer

datatype tpc = TIdle | TLock | TDec | TTest | TSend | TStop | TUnlock

datatype wpc = WIdle | WLock | WSet | WUnlock

record 'p conc =
  sess :: "'p term_t"
  mu :: "actor option"
  tpc :: tpc
  wpc :: wpc

definition step_ticker :: "'p conc \<Rightarrow> 'p conc option" where
  "step_ticker c =
     (case tpc c of
        TIdle \<Rightarrow> if timer (sess c) = Some Ticking then Some (c\<lparr>tpc := TLock\<rparr>) else None
      | TLock \<Rightarrow> if mu c = None then Some (c\<lparr>mu := Some Ticker, tpc := TDec\<rparr>) else None
      | TDec \<Rightarrow> Some (c\<lparr>sess := dec_timeout (sess c), tpc := TTest\<rparr>)
      | TTest \<Rightarrow> Some (c\<lparr>tpc := (if timeout (sess c) = 0 then TSend else TUnlock)\<rparr>)
      | TSend \<Rightarrow> Some (c\<lparr>sess := send_done (sess c), tpc := TStop\<rparr>)
      | TStop \<Rightarrow>
          (case timer_Stop (sess c) of
             None \<Rightarrow> None
           | Some t \<Rightarrow> Some (c\<lparr>sess := t, tpc := TUnlock\<rparr>))
      | TUnlock \<Rightarrow> Some (c\<lparr>mu := None, tpc := TIdle\<rparr>))"

definition step_writer :: "'p conc \<Rightarrow> 'p conc option" where
  "step_writer c =
     (case wpc c of
        WIdle \<Rightarrow> Some (c\<lparr>wpc := WLock\<rparr>)
      | WLock \<Rightarrow> if mu c = None then Some (c\<lparr>mu := Some Writer, wpc := WSet\<rparr>) else None
      | WSet \<Rightarrow> Some (c\<lparr>sess := resetCounter (sess c) (resetTimeout (sess c)), wpc := WUnlock\<rparr>)
      | WUnlock \<Rightarrow> Some (c\<lparr>mu := None, wpc := WIdle\<rparr>))"

fun step :: "actor \<Rightarrow> 'p conc \<Rightarrow> 'p conc option" where
  "step Ticker c = step_ticker c"
| "step Writer c = step_writer c"

fun run :: "actor list \<Rightarrow> 'p conc \<Rightarrow> 'p conc option" where
  "run [] c = Some c"
| "run (a # as) c = (case step a c of None \<Rightarrow> None | Some c' \<Rightarrow> run as c')"

text \<open>Both goroutines idle, the mutex free: the state right after \<open>NewSession\<close>.\<close>

definition spawned :: "'p term_t \<Rightarrow> 'p conc" where
  "spawned t = \<lparr>sess = t, mu = None, tpc = TIdle, wpc = WIdle\<rparr>"



section \<open>The measurement codec\<close>

text \<open>
  Modelled from the spec: \<open>encoder.EncodeSenML\<close> (package \<open>pkg/encoder\<close>) and the decoder
  of measurement records are not among the sources. The spec's section 4.1 gives the
  record \<open>{baseName, name, time, stringValue}\<close> with its optional fields, a wire format
  that is an ordered array of record objects, an \<open>Encode\<close> that builds a one-record
  sequence, and a \<open>Decode\<close> that fails only on a payload that is not such an array and
  takes an absent optional field as unset. The payload is kept as the JSON structure,
  not its bytes; the labels are those of the README's examples (\<open>bn\<close>, \<open>n\<close>, \<open>t\<close>,
  \<open>vs\<close>) and, for the other optional fields, of SenML.
\<close>

datatype json =
    JNull
  | JBool bool
  | JNum real
  | JStr string
  | JArr "json list"
  | JObj "(string \<times> json) list"

record senml_record =
  baseName :: string
  recName :: string
  recTime :: real
  stringValue :: "string option"
  numValue :: "real option"
  boolValue :: "bool option"
  recUnit :: "string option"
  baseTime :: "real option"
  baseUnit :: "string option"

definition record_key :: "senml_record \<Rightarrow> string" where
  "record_key r = baseName r @ recName r"

definition opt_field :: "string \<Rightarrow> ('a \<Rightarrow> json) \<Rightarrow> 'a option \<Rightarrow> (string \<times> json) list" where
  "opt_field k f v = (case v of None \<Rightarrow> [] | Some x \<Rightarrow> [(k, f x)])"

definition record_object :: "senml_record \<Rightarrow> json" where
  "record_object r =
     JObj ([(''bn'', JStr (baseName r)), (''n'', JStr (recName r)), (''t'', JNum (recTime r))]
           @ opt_field ''vs'' JStr (stringValue r)
           @ opt_field ''v'' JNum (numValue r)
           @ opt_field ''vb'' JBool (boolValue r)
           @ opt_field ''u'' JStr (recUnit r)
           @ opt_field ''bt'' JNum (baseTime r)
           @ opt_field ''bu'' JStr (baseUnit r))"

text \<open>
  Modelled from the spec: \<open>encoder.EncodeSenML\<close>, which is not among the sources. A
  one-record sequence with base name \<open>bn\<close>, name \<open>n\<close>, the current time and string value
  \<open>sv\<close>, in the wire format; the time is a parameter.
\<close>

definition EncodeSenML :: "real \<Rightarrow> string \<Rightarrow> string \<Rightarrow> string \<Rightarrow> error + json" where
  "EncodeSenML now bn n sv =
     Inr (JArr [record_object
       \<lparr>baseName = bn, recName = n, recTime = now, stringValue = Some sv,
        numValue = None, boolValue = None, recUnit = None, baseTime = None,
        baseUnit = None\<rparr>])"

text \<open>Reading one label of an object: absent is unset, a value of another kind is an error.\<close>

definition get_str :: "(string \<times> json) list \<Rightarrow> string \<Rightarrow> string option option" where
  "get_str kvs k =
     (case map_of kvs k of None \<Rightarrow> Some None | Some (JStr s) \<Rightarrow> Some (Some s) | Some _ \<Rightarrow> None)"

definition get_num :: "(string \<times> json) list \<Rightarrow> string \<Rightarrow> real option option" where
  "get_num kvs k =
     (case map_of kvs k of None \<Rightarrow> Some None | Some (JNum x) \<Rightarrow> Some (Some x) | Some _ \<Rightarrow> None)"

definition get_bool :: "(string \<times> json) list \<Rightarrow> string \<Rightarrow> bool option option" where
  "get_bool kvs k =
     (case map_of kvs k of None \<Rightarrow> Some None | Some (JBool b) \<Rightarrow> Some (Some b) | Some _ \<Rightarrow> None)"

definition or_else :: "'a \<Rightarrow> 'a option \<Rightarrow> 'a" where
  "or_else d v = (case v of None \<Rightarrow> d | Some x \<Rightarrow> x)"

definition decode_object :: "json \<Rightarrow> senml_record option" where
  "decode_object j =
     (case j of
        JObj kvs \<Rightarrow>
          (case (get_str kvs ''bn'', get_str kvs ''n'', get_num kvs ''t'', get_str kvs ''vs'',
                 get_num kvs ''v'', get_bool kvs ''vb'', get_str kvs ''u'', get_num kvs ''bt'',
                 get_str kvs ''bu'') of
             (Some bn, Some n, Some t, Some vs, Some v, Some vb, Some u, Some bt, Some bu) \<Rightarrow>
               Some \<lparr>baseName = or_else [] bn, recName = or_else [] n, recTime = or_else 0 t,
                     stringValue = vs, numValue = v, boolValue = vb, recUnit = u,
                     baseTime = bt, baseUnit = bu\<rparr>
           | _ \<Rightarrow> None)
      | _ \<Rightarrow> None)"

fun decode_all :: "json list \<Rightarrow> senml_record list option" where
  "decode_all [] = Some []"
| "decode_all (j # js) =
     (case decode_object j of
        None \<Rightarrow> None
      | Some r \<Rightarrow> (case decode_all js of None \<Rightarrow> None | Some rs \<Rightarrow> Some (r # rs)))"

text \<open>
  Modelled from the spec: the decoder of measurement records, which is not among the
  sources. It fails on a payload that is not an array of record objects.
\<close>

definition Decode :: "json \<Rightarrow> error + senml_record list" where
  "Decode payload =
     (case payload of
        JArr js \<Rightarrow>
          (case decode_all js of
             None \<Rightarrow> Inl (New ''decode error'')
           | Some rs \<Rightarrow> Inr rs)
      | _ \<Rightarrow> Inl (New ''decode error''))"

section \<open>Package bootstrap\<close>

subsection \<open>Data\<close>

record Config =
  URL :: string
  ID :: string
  Key :: string
  Retries :: string
  RetryDelaySec :: string
  Encrypt :: string
  SkipTLS :: bool

text \<open>
  The declarations of package \<open>agent\<close>, of \<open>bootstrap.Channel\<close> and of the export
  service's configuration are outside the sources. The records below hold the fields
  that \<open>Bootstrap\<close> and its helpers read or write, and the keys of the README's example
  configuration and environment table for the sections that are only passed on.
\<close>

record Channel =
  ch_ID :: string
  ch_Metadata :: "string \<rightharpoonup> json"

record ServerConfig =
  BrokerURL :: string
  Port :: string

record ChanConfig =
  Control :: string
  Data :: string

record EdgexConfig =
  EdgexURL :: string

record LogConfig =
  Level :: string

record MQTTConfig =
  MqttURL :: string
  Username :: string
  Password :: string
  MTLS :: bool
  SkipTLSVer :: bool
  Retain :: bool
  QoS :: int
  CAPath :: string
  CertPath :: string
  PrivKeyPath :: string
  CaCert :: string
  ClientCert :: string
  ClientKey :: string

record HeartbeatConfig =
  Interval :: duration

record TerminalConfig =
  SessionTimeout :: duration

record agent_Config =
  Server :: ServerConfig
  Channels :: ChanConfig
  Edgex :: EdgexConfig
  Log :: LogConfig
  MQTT :: MQTTConfig
  Heartbeat :: HeartbeatConfig
  Terminal :: TerminalConfig
  File :: string

record export_MQTT =
  ex_Username :: string
  ex_Password :: string
  ex_ClientCert :: string
  ex_ClientCertKey :: string
  ex_ClientCertPath :: string
  ex_ClientPrivKeyPath :: string

record export_Route =
  MqttTopic :: string
  NatsTopic :: string

record export_Config =
  ex_MQTT :: export_MQTT
  ex_Routes :: "export_Route list"
  ex_File :: string

record ServicesConfig =
  Agent :: agent_Config
  Export :: export_Config

record deviceConfig =
  MainfluxID :: string
  MainfluxKey :: string
  MainfluxChannels :: "Channel list"
  ClientKey_dc :: string
  ClientCert_dc :: string
  CaCert_dc :: string
  SvcsConf :: ServicesConfig

definition exportConfigFile :: string where
  "exportConfigFile = ''/configs/export/config.toml''"

text \<open>The zero values \<open>ServicesConfig{}\<close> and \<open>deviceConfig{}\<close>.\<close>

definition zero_MQTTConfig :: MQTTConfig where
  "zero_MQTTConfig =
     \<lparr>MqttURL = [], Username = [], Password = [], MTLS = False, SkipTLSVer = False,
      Retain = False, QoS = 0, CAPath = [], CertPath = [], PrivKeyPath = [], CaCert = [],
      ClientCert = [], ClientKey = []\<rparr>"

definition zero_agent_Config :: agent_Config where
  "zero_agent_Config =
     \<lparr>Server = \<lparr>BrokerURL = [], Port = []\<rparr>, Channels = \<lparr>Control = [], Data = []\<rparr>,
      Edgex = \<lparr>EdgexURL = []\<rparr>, Log = \<lparr>Level = []\<rparr>, MQTT = zero_MQTTConfig,
      Heartbeat = \<lparr>Interval = 0\<rparr>, Terminal = \<lparr>SessionTimeout = 0\<rparr>, File = []\<rparr>"

definition zero_export_Config :: export_Config where
  "zero_export_Config =
     \<lparr>ex_MQTT = \<lparr>ex_Username = [], ex_Password = [], ex_ClientCert = [],
                 ex_ClientCertKey = [], ex_ClientCertPath = [], ex_ClientPrivKeyPath = []\<rparr>,
      ex_Routes = [], ex_File = []\<rparr>"

definition zero_ServicesConfig :: ServicesConfig where
  "zero_ServicesConfig = \<lparr>Agent = zero_agent_Config, Export = zero_export_Config\<rparr>"

definition zero_deviceConfig :: deviceConfig where
  "zero_deviceConfig =
     \<lparr>MainfluxID = [], MainfluxKey = [], MainfluxChannels = [], ClientKey_dc = [],
      ClientCert_dc = [], CaCert_dc = [], SvcsConf = zero_ServicesConfig\<rparr>"

subsection \<open>The outside world\<close>

text \<open>
  What \<open>Bootstrap\<close> does to the outside, in order: the calls of \<open>getConfig\<close> (numbered
  from 0), the HTTP requests sent, the sleeps, the log lines (level and message, without
  their attributes), the line printed, and the two saves.
\<close>

datatype level = Debug | Info | Warn | Error

datatype event =
    Fetch nat
  | Request nat string string
  | Sleep duration
  | Logged level string
  | Printed string
  | SaveExport export_Config
  | SaveAgent agent_Config

record response =
  StatusCode :: int
  Body :: "error + string"

text \<open>
  The collaborators, as functions: the system certificate pool (the text of its error,
  if any), \<open>http.NewRequest\<close>, \<open>client.Do\<close> (by the number of the call, the URL, the
  Authorization header and the TLS flag), \<open>http.StatusText\<close>, the three
  \<open>json.Unmarshal\<close> calls, \<open>os.Stat\<close>, \<open>export.Save\<close>, \<open>agent.NewConfig\<close> and
  \<open>agent.SaveConfig\<close>.
\<close>

record world =
  cert_pool :: "string option"
  new_request :: "string \<Rightarrow> error option"
  do_request :: "nat \<Rightarrow> string \<Rightarrow> string \<Rightarrow> bool \<Rightarrow> error + response"
  status_text :: "int \<Rightarrow> string"
  unmarshal_content :: "string \<Rightarrow> error + string"
  unmarshal_services :: "string \<Rightarrow> error + ServicesConfig"
  unmarshal_device :: "string \<Rightarrow> error + deviceConfig"
  stat_ok :: "string \<Rightarrow> bool"
  export_Save :: "export_Config \<Rightarrow> error option"
  NewConfig :: "ServerConfig \<Rightarrow> ChanConfig \<Rightarrow> EdgexConfig \<Rightarrow> LogConfig \<Rightarrow> MQTTConfig
                 \<Rightarrow> HeartbeatConfig \<Rightarrow> TerminalConfig \<Rightarrow> string \<Rightarrow> agent_Config"
  SaveConfig :: "agent_Config \<Rightarrow> error option"

subsection \<open>strconv.ParseUint(s, 10, 64)\<close>

text \<open>
  The loop of \<open>ParseUint\<close> for base 10 and 64 bits, on the value so far: a byte that is
  not a decimal digit is a syntax error, a value beyond \<open>2^64 - 1\<close> a range error.
\<close>

definition cutoff :: nat where
  "cutoff = (2 ^ 64 - 1) div 10 + 1"

fun parse_digits :: "string \<Rightarrow> nat \<Rightarrow> num_error + nat" where
  "parse_digits [] n = Inr n"
| "parse_digits (c # cs) n =
     (let v = (of_char c :: nat)
      in if 48 \<le> v \<and> v \<le> 57 then
           (if cutoff \<le> n then Inl ErrRange
            else let n1 = n * 10 + (v - 48)
                 in if 2 ^ 64 - 1 < n1 then Inl ErrRange else parse_digits cs n1)
         else Inl ErrSyntax)"

definition ParseUint :: "string \<Rightarrow> num_error + 64 word" where
  "ParseUint s =
     (if s = [] then Inl ErrSyntax
      else case parse_digits s 0 of Inl e \<Rightarrow> Inl e | Inr n \<Rightarrow> Inr (of_nat n))"

subsection \<open>getConfig\<close>

text \<open>
  \<open>getConfig\<close>, as the \<open>k\<close>-th call: the device configuration (the zero value on every
  error path), the error, and what it did.
\<close>

definition getConfig ::
  "world \<Rightarrow> nat \<Rightarrow> string \<Rightarrow> string \<Rightarrow> string \<Rightarrow> bool
    \<Rightarrow> deviceConfig \<times> error option \<times> event list" where
  "getConfig w k bsID bsKey bsSvrURL skipTLS =
     (let ev0 = (case cert_pool w of None \<Rightarrow> [] | Some msg \<Rightarrow> [Logged Error msg]);
          url = bsSvrURL @ ''/'' @ bsID
      in case new_request w url of
           Some err \<Rightarrow> (zero_deviceConfig, Some err, ev0)
         | None \<Rightarrow>
             (let ev1 = ev0 @ [Request k url (''Thing '' @ bsKey)]
              in case do_request w k url (''Thing '' @ bsKey) skipTLS of
                   Inl err \<Rightarrow> (zero_deviceConfig, Some err, ev1)
                 | Inr resp \<Rightarrow>
                     if 400 \<le> StatusCode resp
                     then (zero_deviceConfig, Some (New (status_text w (StatusCode resp))), ev1)
                     else
                       (case Body resp of
                          Inl err \<Rightarrow> (zero_deviceConfig, Some err, ev1)
                        | Inr body \<Rightarrow>
                            (case unmarshal_content w body of
                               Inl err \<Rightarrow> (zero_deviceConfig, Some err, ev1)
                             | Inr content \<Rightarrow>
                                 (let ev2 = ev1 @ [Printed content]
                                  in case unmarshal_services w content of
                                       Inl err \<Rightarrow> (zero_deviceConfig, Some err, ev2)
                                     | Inr sc \<Rightarrow>
                                         (case unmarshal_device w body of
                                            Inl err \<Rightarrow> (zero_deviceConfig, Some err, ev2)
                                          | Inr dc \<Rightarrow> (dc\<lparr>SvcsConf := sc\<rparr>, None, ev2)))))))"

subsection \<open>The export configuration\<close>

definition fill :: "string \<Rightarrow> string \<Rightarrow> string" where
  "fill cur dflt = (if cur = [] then dflt else cur)"

definition fillExportConfig :: "export_Config \<Rightarrow> agent_Config \<Rightarrow> export_Config" where
  "fillExportConfig econf c =
     (let m = ex_MQTT econf;
          m1 = m\<lparr>ex_Username := fill (ex_Username m) (Username (MQTT c))\<rparr>;
          m2 = m1\<lparr>ex_Password := fill (ex_Password m1) (Password (MQTT c))\<rparr>;
          m3 = m2\<lparr>ex_ClientCert := fill (ex_ClientCert m2) (ClientCert (MQTT c))\<rparr>;
          m4 = m3\<lparr>ex_ClientCertKey := fill (ex_ClientCertKey m3) (ClientKey (MQTT c))\<rparr>;
          m5 = m4\<lparr>ex_ClientCertPath := fill (ex_ClientCertPath m4) (CertPath (MQTT c))\<rparr>;
          m6 = m5\<lparr>ex_ClientPrivKeyPath := fill (ex_ClientPrivKeyPath m5) (PrivKeyPath (MQTT c))\<rparr>
      in econf\<lparr>ex_MQTT := m6,
               ex_Routes :=
                 map (\<lambda>route. route\<lparr>MqttTopic :=
                        fill (MqttTopic route) (''channels/'' @ Data (Channels c) @ ''/messages'')\<rparr>)
                   (ex_Routes econf)\<rparr>)"

definition saveExportConfig :: "world \<Rightarrow> export_Config \<Rightarrow> event list" where
  "saveExportConfig w econf0 =
     (let econf = econf0\<lparr>ex_File := fill (ex_File econf0) exportConfigFile\<rparr>
      in if stat_ok w (ex_File econf) then [Logged Info ''Export config file exists'']
         else [Logged Info ''Saving export config file'', SaveExport econf]
              @ (case export_Save w econf of
                   None \<Rightarrow> []
                 | Some err \<Rightarrow> [Logged Warn ''Failed to save export config file'']))"

subsection \<open>Bootstrap\<close>

text \<open>
  How the retry loop ends: by \<open>break\<close> after a fetch that succeeded, by the \<open>return nil\<close>
  of its last iteration, or because its condition is false.
\<close>

datatype loop_exit = Broke | Returned | Finished

text \<open>
  \<open>time.Duration(retryDelaySec) * time.Second\<close>: the conversion keeps the 64 bits, the
  product wraps.
\<close>

definition retry_delay :: "64 word \<Rightarrow> duration" where
  "retry_delay retryDelaySec = retryDelaySec * second"

text \<open>
  The loop \<open>for i := 0; i < int(retries); i++\<close> from \<open>i\<close> on, with the current \<open>dc\<close>;
  \<open>int(retries)\<close> reads the 64 bits as a signed number (GOARCH amd64, the Makefile's
  default).
\<close>

function retry_loop ::
  "world \<Rightarrow> Config \<Rightarrow> 64 word \<Rightarrow> 64 word \<Rightarrow> int \<Rightarrow> deviceConfig
    \<Rightarrow> loop_exit \<times> deviceConfig \<times> event list" where
  "retry_loop w cfg retries retryDelaySec i dc =
     (if i < sint retries then
        (case getConfig w (nat i) (ID cfg) (Key cfg) (URL cfg) (SkipTLS cfg) of
           (dc', None, ev) \<Rightarrow> (Broke, dc', Fetch (nat i) # ev)
         | (dc', Some err, ev) \<Rightarrow>
             (let tr = Fetch (nat i) # ev
                        @ [Logged Error ''Fetching bootstrap failed'', Logged Debug ''Retrying...'',
                           Sleep (retry_delay retryDelaySec)]
              in if i = sint retries - 1
                 then (Returned, dc',
                       tr @ [Logged Warn ''Retries exhausted'',
                             Logged Info ''Continuing with local config''])
                 else (case retry_loop w cfg retries retryDelaySec (i + 1) dc' of
                         (ex, dc'', tr') \<Rightarrow> (ex, dc'', tr @ tr'))))
      else (Finished, dc, []))"
  by pat_completeness auto
termination
  by (relation "measure (\<lambda>(w, cfg, retries, retryDelaySec, i, dc). nat (sint retries - i))") auto

definition Bootstrap :: "world \<Rightarrow> Config \<Rightarrow> string \<Rightarrow> error option \<times> event list" where
  "Bootstrap w cfg file =
     (case ParseUint (Retries cfg) of
        Inl err \<Rightarrow> (Some (InvalidRetries err), [])
      | Inr retries \<Rightarrow>
          if retries = 0
          then (None, [Logged Info ''No bootstrapping, environment variables will be used''])
          else
            (case ParseUint (RetryDelaySec cfg) of
               Inl err \<Rightarrow> (Some (InvalidRetryDelay err), [])
             | Inr retryDelaySec \<Rightarrow>
                 (case retry_loop w cfg retries retryDelaySec 0 zero_deviceConfig of
                    (Returned, dc, tr) \<Rightarrow> (None, Logged Info ''Requesting config'' # tr)
                  | (ex, dc, tr) \<Rightarrow>
                      if length (MainfluxChannels dc) < 2
                      then (Some ErrMalformedEntity, Logged Info ''Requesting config'' # tr)
                      else
                        (let ch0 = MainfluxChannels dc ! 0;
                             ch1 = MainfluxChannels dc ! 1;
                             swap = (ch_Metadata ch0 ''type'' = Some (JStr ''data''));
                             ctrlChan = (if swap then ch_ID ch1 else ch_ID ch0);
                             dataChan = (if swap then ch_ID ch0 else ch_ID ch1);
                             a = Agent (SvcsConf dc);
                             cc = \<lparr>Control = ctrlChan, Data = dataChan\<rparr>;
                             mc = (MQTT a)\<lparr>Password := MainfluxKey dc, Username := MainfluxID dc,
                                            ClientCert := ClientCert_dc dc,
                                            ClientKey := ClientKey_dc dc, CaCert := CaCert_dc dc\<rparr>;
                             c = NewConfig w (Server a) cc (Edgex a) (Log a) mc (Heartbeat a)
                                   (Terminal a) file;
                             econf = fillExportConfig (Export (SvcsConf dc)) c
                         in (SaveConfig w c,
                             Logged Info ''Requesting config'' # tr
                               @ saveExportConfig w econf @ [SaveAgent c])))))"

section \<open>Notions used by the statements\<close>

subsection \<open>Sessions in use\<close>

text \<open>
  What happens to a session after \<open>NewSession\<close>: a clock period, an output chunk handed
  to \<open>Write\<close> (with the encoder in force), or input handed to \<open>Send\<close> (with what the
  operating system does with the write).
\<close>

datatype 'p op =
    Tick
  | Output "string \<Rightarrow> string \<Rightarrow> string \<Rightarrow> error + 'p" string
  | Input write_outcome string

fun apply_op :: "'p op \<Rightarrow> 'p term_t \<Rightarrow> 'p term_t option" where
  "apply_op Tick t = tick t"
| "apply_op (Output enc p) t = Some (fst (Write enc t p))"
| "apply_op (Input w p) t = Some (fst (Send w t p))"

fun apply_ops :: "'p op list \<Rightarrow> 'p term_t \<Rightarrow> 'p term_t option" where
  "apply_ops [] t = Some t"
| "apply_ops (x # xs) t = (case apply_op x t of None \<Rightarrow> None | Some t' \<Rightarrow> apply_ops xs t')"


subsection \<open>Reading a trace of Bootstrap\<close>

fun is_Fetch :: "event \<Rightarrow> bool" where
  "is_Fetch (Fetch k) = True"
| "is_Fetch _ = False"

fun is_Sleep :: "event \<Rightarrow> bool" where
  "is_Sleep (Sleep d) = True"
| "is_Sleep _ = False"

fun is_Save :: "event \<Rightarrow> bool" where
  "is_Save (SaveExport e) = True"
| "is_Save (SaveAgent c) = True"
| "is_Save _ = False"

definition fetch_count :: "event list \<Rightarrow> nat" where
  "fetch_count tr = length (filter is_Fetch tr)"

text \<open>The fetches and sleeps of a trace, in order.\<close>

definition attempts :: "event list \<Rightarrow> event list" where
  "attempts tr = filter (\<lambda>e. is_Fetch e \<or> is_Sleep e) tr"

text \<open>\<open>m\<close> failed attempts from number \<open>i\<close> on, each followed by its sleep.\<close>

fun failed_attempts :: "duration \<Rightarrow> nat \<Rightarrow> nat \<Rightarrow> event list" where
  "failed_attempts d i 0 = []"
| "failed_attempts d i (Suc m) = Fetch i # Sleep d # failed_attempts d (Suc i) m"

text \<open>The \<open>k\<close>-th call of \<open>getConfig\<close> by \<open>Bootstrap\<close> fails.\<close>

definition fetch_fails :: "world \<Rightarrow> Config \<Rightarrow> nat \<Rightarrow> bool" where
  "fetch_fails w cfg k =
     (fst (snd (getConfig w k (ID cfg) (Key cfg) (URL cfg) (SkipTLS cfg))) \<noteq> None)"

subsection \<open>Example values\<close>

definition publish_ok :: "string \<Rightarrow> json \<Rightarrow> error option" where
  "publish_ok channel payload = None"

definition publish_down :: "string \<Rightarrow> json \<Rightarrow> error option" where
  "publish_down channel payload = Some (New ''broker down'')"

definition example_Config :: Config where
  "example_Config =
     \<lparr>URL = ''http://localhost:9013/things/bootstrap'', ID = ''gw1'', Key = ''secret'',
      Retries = ''2'', RetryDelaySec = ''10'', Encrypt = ''false'', SkipTLS = True\<rparr>"

text \<open>A provisioning service that cannot be reached.\<close>

definition unreachable_world :: world where
  "unreachable_world =
     \<lparr>cert_pool = None,
      new_request = (\<lambda>url. None),
      do_request = (\<lambda>k url auth skip. Inl (New ''connection refused'')),
      status_text = (\<lambda>code. ''error''),
      unmarshal_content = (\<lambda>body. Inr []),
      unmarshal_services = (\<lambda>content. Inr zero_ServicesConfig),
      unmarshal_device = (\<lambda>body. Inr zero_deviceConfig),
      stat_ok = (\<lambda>path. False),
      export_Save = (\<lambda>e. None),
      NewConfig = (\<lambda>sc cc ec lc mc hc tc file.
        \<lparr>Server = sc, Channels = cc, Edgex = ec, Log = lc, MQTT = mc, Heartbeat = hc,
         Terminal = tc, File = file\<rparr>),
      SaveConfig = (\<lambda>c. None)\<rparr>"

text \<open>A provisioning service that answers with a device configuration without channels.\<close>

definition channelless_world :: world where
  "channelless_world =
     unreachable_world\<lparr>do_request :=
       (\<lambda>k url auth skip. Inr \<lparr>StatusCode = 200, Body = Inr ''{}''\<rparr>)\<rparr>"



text \<open>A session two ticks after its creation with three seconds, its broker unreachable.\<close>

definition cut_off_session :: "json term_t" where
  "cut_off_session =
     \<lparr>uuid = ''u1'', ptmx = Some [], done_sent = 0, topic = ''term/u1'', timeout = second,
      resetTimeout = 3 * second, timer = Some Ticking, publish = publish_down\<rparr>"

text \<open>An encoder that fails.\<close>

definition broken_encoder :: "string \<Rightarrow> string \<Rightarrow> string \<Rightarrow> error + json" where
  "broken_encoder bn n sv = Inl (New ''encode'')"

text \<open>
  What \<open>Bootstrap\<close> does with \<open>example_Config\<close> (two retries, ten seconds) when the
  provisioning service cannot be reached.
\<close>

definition unreachable_trace :: "event list" where
  "unreachable_trace =
     [Logged Info ''Requesting config'',
      Fetch 0, Request 0 ''http://localhost:9013/things/bootstrap/gw1'' ''Thing secret'',
      Logged Error ''Fetching bootstrap failed'', Logged Debug ''Retrying...'',
      Sleep (retry_delay 10),
      Fetch 1, Request 1 ''http://localhost:9013/things/bootstrap/gw1'' ''Thing secret'',
      Logged Error ''Fetching bootstrap failed'', Logged Debug ''Retrying...'',
      Sleep (retry_delay 10),
      Logged Warn ''Retries exhausted'', Logged Info ''Continuing with local config'']"

section \<open>Properties of a terminal session\<close>

subsection \<open>What the operations leave alone\<close>

lemma resetCounter_frame:
  "uuid (resetCounter t d) = uuid t" "topic (resetCounter t d) = topic t"
  "publish (resetCounter t d) = publish t" "resetTimeout (resetCounter t d) = resetTimeout t"
  "ptmx (resetCounter t d) = ptmx t" "done_sent (resetCounter t d) = done_sent t"
  "timer (resetCounter t d) = timer t"
  by (simp_all add: resetCounter_def)

lemma dec_timeout_frame:
  "timer (dec_timeout t) = timer t" "done_sent (dec_timeout t) = done_sent t"
  "uuid (dec_timeout t) = uuid t" "topic (dec_timeout t) = topic t"
  by (simp_all add: dec_timeout_def)

lemma send_done_frame:
  "timer (send_done t) = timer t" "done_sent (send_done t) = Suc (done_sent t)"
  "timeout (send_done t) = timeout t" "uuid (send_done t) = uuid t"
  "topic (send_done t) = topic t"
  by (simp_all add: send_done_def)

lemma timer_Stop_Some:
  "timer_Stop t = Some t' \<Longrightarrow>
     timer t' = Some Stopped \<and> done_sent t' = done_sent t \<and> timeout t' = timeout t \<and>
     uuid t' = uuid t \<and> topic t' = topic t"
  by (auto simp: timer_Stop_def split: option.splits)

lemma Write_cases:
  "Write enc t p =
     (case enc (uuid t) terminal p of
        Inl err \<Rightarrow> (resetCounter t (resetTimeout t), int (length p), Some err, [])
      | Inr payload \<Rightarrow>
          (resetCounter t (resetTimeout t), int (length p), publish t (topic t) payload,
           [(topic t, payload)]))"
  by (simp add: Write_def Let_def resetCounter_frame split: sum.splits option.splits)

lemma tick_ids: "tick t = Some t' \<Longrightarrow> uuid t' = uuid t \<and> topic t' = topic t"
  by (auto simp: tick_def decrementCounter_def Let_def dec_timeout_frame send_done_frame
      split: if_splits dest!: timer_Stop_Some)

lemma Write_ids: "uuid (fst (Write enc t p)) = uuid t \<and> topic (fst (Write enc t p)) = topic t"
  by (simp add: Write_cases resetCounter_frame split: sum.splits)

lemma Send_ids: "uuid (fst (Send w t p)) = uuid t \<and> topic (fst (Send w t p)) = topic t"
  by (simp add: Send_def split: option.splits write_outcome.splits)

lemma apply_op_ids: "apply_op x t = Some t' \<Longrightarrow> uuid t' = uuid t \<and> topic t' = topic t"
  by (cases x) (auto simp: Write_ids Send_ids dest: tick_ids)

lemma apply_ops_ids: "apply_ops xs t = Some t' \<Longrightarrow> uuid t' = uuid t \<and> topic t' = topic t"
proof (induction xs arbitrary: t)
  case Nil
  then show ?case by simp
next
  case (Cons x xs)
  from Cons.prems obtain t1 where x: "apply_op x t = Some t1" and xs: "apply_ops xs t1 = Some t'"
    by (auto split: option.splits)
  from Cons.IH [OF xs] apply_op_ids [OF x] show ?case
    by simp
qed

lemma NewSession_ids:
  "NewSession u d pub st = (Some t0, e0, tasks) \<Longrightarrow> uuid t0 = u \<and> topic t0 = ''term/'' @ u"
  by (auto simp: NewSession_def Let_def split: pty_start.splits)


subsection \<open>The invariant of the interleaving model\<close>











text \<open>
  Left alone, the countdown goroutine does in five steps (seven when the countdown
  expires) what \<open>tick\<close> does at once.
\<close>

lemma ticker_alone:
  assumes "timer t = Some Ticking"
  shows "run (if timeout t = second
              then [Ticker, Ticker, Ticker, Ticker, Ticker, Ticker, Ticker]
              else [Ticker, Ticker, Ticker, Ticker, Ticker]) (spawned t) =
         map_option spawned (tick t)"
  using assms
  by (simp add: spawned_def step_ticker_def tick_def decrementCounter_def dec_timeout_def
      send_done_def timer_Stop_def)




subsection \<open>The countdown without output\<close>

lemma tick_stopped: "timer t \<noteq> Some Ticking \<Longrightarrow> tick t = Some t"
  by (simp add: tick_def)

lemma ticks_stopped: "timer t \<noteq> Some Ticking \<Longrightarrow> ticks n t = Some t"
  by (induction n) (simp_all add: tick_stopped)

lemma ticks_add: "ticks (m + n) t = (case ticks m t of None \<Rightarrow> None | Some t' \<Rightarrow> ticks n t')"
  by (induction m arbitrary: t) (auto split: option.splits)

lemma tick_running:
  "timer t = Some Ticking \<Longrightarrow> timeout t \<noteq> second \<Longrightarrow>
     tick t = Some (t\<lparr>timeout := timeout t - second\<rparr>)"
  by (simp add: tick_def decrementCounter_def dec_timeout_def)

lemma tick_expiring:
  "timer t = Some Ticking \<Longrightarrow> timeout t = second \<Longrightarrow>
   tick t = Some (t\<lparr>timeout := 0, done_sent := Suc (done_sent t), timer := Some Stopped\<rparr>)"
  by (simp add: tick_def decrementCounter_def dec_timeout_def send_done_def timer_Stop_def)

lemma three_seconds:
  "3 * second - second = 2 * second" "2 * second - second = second"
  "3 * second \<noteq> second" "2 * second \<noteq> second"
  by (simp_all add: second_def)

text \<open>
  C2. A session created with a timeout of three seconds and left without output: after
  \<open>k\<close> clock periods \<open>done\<close> has been sent not at all if \<open>k < 3\<close> and exactly once
  if \<open>k \<ge> 3\<close>, and the ticker runs exactly as long as \<open>k < 3\<close>.
\<close>

theorem timeout_three_fires_once:
  "\<exists>t0. NewSession u (3 * second) pub Started = (Some t0, None, [CopyOutput, Countdown]) \<and>
     (\<exists>t. ticks k t0 = Some t \<and> done_sent t = (if k < 3 then 0 else 1) \<and>
           (timer t = Some Ticking) = (k < 3))"
proof -
  define t0 :: "'a term_t" where
    "t0 = \<lparr>uuid = u, ptmx = Some [], done_sent = 0, topic = ''term/'' @ u,
           timeout = 3 * second, resetTimeout = 3 * second, timer = Some Ticking,
           publish = pub\<rparr>"
  have new: "NewSession u (3 * second) pub Started = (Some t0, None, [CopyOutput, Countdown])"
    by (simp add: NewSession_def t0_def)
  define t1 where "t1 = t0\<lparr>timeout := 2 * second\<rparr>"
  define t2 where "t2 = t0\<lparr>timeout := second\<rparr>"
  define t3 where "t3 = t0\<lparr>timeout := 0, done_sent := 1, timer := Some Stopped\<rparr>"
  have k1: "tick t0 = Some t1"
    using tick_running [of t0] by (simp add: t0_def t1_def three_seconds)
  have k2: "tick t1 = Some t2"
    using tick_running [of t1] by (simp add: t0_def t1_def t2_def three_seconds)
  have k3: "tick t2 = Some t3"
    using tick_expiring [of t2] by (simp add: t0_def t2_def t3_def)
  have s1: "ticks (Suc 0) t0 = Some t1"
    by (simp add: k1)
  have s2: "ticks (Suc (Suc 0)) t0 = Some t2"
    by (simp add: k1 k2)
  have s3: "ticks (Suc (Suc (Suc 0))) t0 = Some t3"
    by (simp add: k1 k2 k3)
  have "timer t3 \<noteq> Some Ticking"
    by (simp add: t3_def)
  then have "ticks m t3 = Some t3" for m
    by (rule ticks_stopped)
  then have rest: "ticks (Suc (Suc (Suc 0)) + m) t0 = Some t3" for m
    by (simp only: ticks_add [of "Suc (Suc (Suc 0))" m t0] s3 option.case)
  consider "k = 0" | "k = Suc 0" | "k = Suc (Suc 0)" | m where "k = Suc (Suc (Suc 0)) + m"
    by (metis add_Suc add_0 not0_implies_Suc)
  then have "\<exists>t. ticks k t0 = Some t \<and> done_sent t = (if k < 3 then 0 else 1) \<and>
           (timer t = Some Ticking) = (k < 3)"
  proof cases
    case 1
    then show ?thesis by (simp add: t0_def)
  next
    case 2
    then show ?thesis using s1 by (simp add: t0_def t1_def)
  next
    case 3
    then show ?thesis using s2 by (simp add: t0_def t2_def)
  next
    case 4
    then show ?thesis using rest [of m] by (simp add: t0_def t3_def)
  qed
  with new show ?thesis by blast
qed

subsection \<open>Input and output\<close>

text \<open>
  C3, as the code has it. \<open>Send\<close> leaves the countdown, its configured value, the
  ticker and \<open>done\<close> as they are, and where the pty takes the bytes they are appended
  to its input; \<open>Write\<close> sets the countdown to its configured value whenever that value
  is positive, whether or not the chunk is then encoded and published.
\<close>

theorem Send_frame_Write_resets:
  "(\<exists>t' err. Send w t p = (t', err) \<and> timeout t' = timeout t \<and>
       resetTimeout t' = resetTimeout t \<and> timer t' = timer t \<and> done_sent t' = done_sent t \<and>
       (w = Accepted \<and> ptmx t = Some inp \<longrightarrow> ptmx t' = Some (inp @ p) \<and> err = None)) \<and>
   (\<exists>t' n err calls. Write enc t p = (t', n, err, calls) \<and>
       timeout t' = (if 0 <s resetTimeout t then resetTimeout t else timeout t))"
  by (auto simp: Send_def Write_cases resetCounter_def
      split: option.splits write_outcome.splits sum.splits)

theorem Send_frame_Write_resets_witness:
  "Send Accepted cut_off_session ''ls'' = (cut_off_session\<lparr>ptmx := Some ''ls''\<rparr>, None) \<and>
   timeout (cut_off_session\<lparr>ptmx := Some ''ls''\<rparr>) = timeout cut_off_session \<and>
   timeout (fst (Write broken_encoder cut_off_session ''ls'')) = resetTimeout cut_off_session"
  using Send_frame_Write_resets [of Accepted cut_off_session "''ls''" "[]" broken_encoder]
  by (simp add: Send_def Write_cases cut_off_session_def broken_encoder_def resetCounter_def
      second_def word_sless_alt)

text \<open>
  C3, as the claim has it, fails: with one second left of three and the broker
  unreachable, \<open>Write\<close> returns the error of \<open>publish\<close> and the countdown is back at three
  seconds.
\<close>

theorem reset_only_on_delivery_counterexample:
  "Write (EncodeSenML 0) cut_off_session ''ls'' =
     (cut_off_session\<lparr>timeout := 3 * second\<rparr>, 2, Some (New ''broker down''),
      [(''term/u1'',
        JArr [JObj [(''bn'', JStr ''u1''), (''n'', JStr ''term''), (''t'', JNum 0),
                    (''vs'', JStr ''ls'')]])]) \<and>
   timeout cut_off_session = second \<and>
   timeout (cut_off_session\<lparr>timeout := 3 * second\<rparr>) \<noteq> timeout cut_off_session"
  by (simp add: Write_cases cut_off_session_def EncodeSenML_def record_object_def opt_field_def
      publish_down_def terminal_def resetCounter_def second_def word_sless_alt)

text \<open>
  C4, as the code has it. When the pty cannot be started, \<open>NewSession\<close> returns the
  error and has started no goroutine; the session value it returns beside the error has
  its identity, topic and timeouts, no pty and no ticker.
\<close>

theorem NewSession_spawn_failure:
  "\<exists>t. NewSession u d pub (StartFailed msg) = (Some t, Some (New msg), []) \<and>
       ptmx t = None \<and> timer t = None \<and> done_sent t = 0 \<and> uuid t = u \<and>
       topic t = ''term/'' @ u \<and> timeout t = d \<and> resetTimeout t = d"
  by (simp add: NewSession_def)

text \<open>
  C4, as the claim has it, fails: the caller is handed a session value together with
  the error.
\<close>

theorem no_session_on_spawn_failure_counterexample:
  "fst (NewSession ''u1'' (3 * second) publish_ok (StartFailed ''no pty'')) =
     Some \<lparr>uuid = ''u1'', ptmx = None, done_sent = 0, topic = ''term/u1'',
           timeout = 3 * second, resetTimeout = 3 * second, timer = None,
           publish = publish_ok\<rparr> \<and>
   fst (snd (NewSession ''u1'' (3 * second) publish_ok (StartFailed ''no pty''))) =
     Some (New ''no pty'')"
  by (simp add: NewSession_def)

text \<open>
  C8. When the encoder fails, or the encoder succeeds and \<open>publish\<close> fails, \<open>Write\<close>
  returns that error together with the length of \<open>p\<close>.
\<close>

theorem Write_failure_reports_length:
  assumes "enc (uuid t) terminal p = Inl e \<or>
           (\<exists>payload. enc (uuid t) terminal p = Inr payload \<and>
                      publish t (topic t) payload = Some e)"
  shows "\<exists>t' calls. Write enc t p = (t', int (length p), Some e, calls)"
  using assms by (auto simp: Write_cases)

theorem Write_failure_reports_length_witness:
  "Write broken_encoder cut_off_session ''ls'' =
     (cut_off_session\<lparr>timeout := 3 * second\<rparr>, 2, Some (New ''encode''), [])"
  using Write_failure_reports_length [of broken_encoder cut_off_session "''ls''" "New ''encode''"]
  by (simp add: Write_cases cut_off_session_def broken_encoder_def resetCounter_def second_def
      word_sless_alt)

section \<open>Properties of the codec and of the published chunks\<close>

text \<open>
  C5. Decoding what \<open>EncodeSenML\<close> returns for \<open>id\<close>, \<open>name\<close> and \<open>value\<close> gives one
  record, whose key (base name followed by name) is \<open>id\<close> followed by \<open>name\<close> and whose
  string value is \<open>value\<close>.
\<close>

theorem Decode_Encode:
  "\<exists>payload r. EncodeSenML now i n v = Inr payload \<and> Decode payload = Inr [r] \<and>
       record_key r = i @ n \<and> stringValue r = Some v"
  by (simp add: EncodeSenML_def Decode_def decode_object_def record_object_def opt_field_def
      get_str_def get_num_def get_bool_def or_else_def record_key_def)

text \<open>
  C6. For a session of client \<open>u\<close>, in whatever state its use has left it, \<open>Write\<close>
  makes one call of \<open>publish\<close>, on the topic \<open>term/u\<close>, with what the encoder returns
  for \<open>u\<close>, \<open>term\<close> and the chunk; with the encoder of the spec that payload decodes to
  one record with base name \<open>u\<close>, name \<open>term\<close> and the chunk as its string value.
\<close>

theorem output_chunk_on_session_topic:
  assumes "NewSession u d pub st = (Some t0, e0, tasks)" and "apply_ops ops t0 = Some t"
  shows "(\<forall>payload. enc u terminal p = Inr payload \<longrightarrow>
            (\<exists>t' err. Write enc t p = (t', int (length p), err, [(''term/'' @ u, payload)]))) \<and>
         (\<exists>t' err payload r.
            Write (EncodeSenML now) t p = (t', int (length p), err, [(''term/'' @ u, payload)]) \<and>
            Decode payload = Inr [r] \<and> baseName r = u \<and> recName r = terminal \<and>
            stringValue r = Some p)"
proof -
  from NewSession_ids [OF assms(1)] apply_ops_ids [OF assms(2)]
  have ids: "uuid t = u" "topic t = ''term/'' @ u"
    by simp_all
  have "\<forall>payload. enc u terminal p = Inr payload \<longrightarrow>
          (\<exists>t' err. Write enc t p = (t', int (length p), err, [(''term/'' @ u, payload)]))"
    by (simp add: Write_cases ids)
  moreover have "\<exists>t' err payload r.
      Write (EncodeSenML now) t p = (t', int (length p), err, [(''term/'' @ u, payload)]) \<and>
      Decode payload = Inr [r] \<and> baseName r = u \<and> recName r = terminal \<and>
      stringValue r = Some p"
    by (simp add: Write_cases ids EncodeSenML_def Decode_def decode_object_def record_object_def
        opt_field_def get_str_def get_num_def get_bool_def or_else_def)
  ultimately show ?thesis
    by blast
qed

theorem output_chunk_on_session_topic_witness:
  "NewSession ''u1'' (3 * second) publish_ok Started =
     (Some (cut_off_session\<lparr>timeout := 3 * second, publish := publish_ok\<rparr>), None,
      [CopyOutput, Countdown]) \<and>
   apply_ops [Tick, Input Accepted ''ls'']
       (cut_off_session\<lparr>timeout := 3 * second, publish := publish_ok\<rparr>) =
     Some (cut_off_session\<lparr>timeout := 2 * second, publish := publish_ok, ptmx := Some ''ls''\<rparr>) \<and>
   Write (EncodeSenML 5)
       (cut_off_session\<lparr>timeout := 2 * second, publish := publish_ok, ptmx := Some ''ls''\<rparr>)
       ''a.txt'' =
     (cut_off_session\<lparr>timeout := 3 * second, publish := publish_ok, ptmx := Some ''ls''\<rparr>, 5,
      None,
      [(''term/u1'',
        JArr [JObj [(''bn'', JStr ''u1''), (''n'', JStr ''term''), (''t'', JNum 5),
                    (''vs'', JStr ''a.txt'')]])])"
proof -
  have n: "NewSession ''u1'' (3 * second) publish_ok Started =
     (Some (cut_off_session\<lparr>timeout := 3 * second, publish := publish_ok\<rparr>), None,
      [CopyOutput, Countdown])"
    by (simp add: NewSession_def cut_off_session_def)
  have a: "apply_ops [Tick, Input Accepted ''ls'']
       (cut_off_session\<lparr>timeout := 3 * second, publish := publish_ok\<rparr>) =
     Some (cut_off_session\<lparr>timeout := 2 * second, publish := publish_ok, ptmx := Some ''ls''\<rparr>)"
    by (simp add: cut_off_session_def tick_running three_seconds Send_def)
  from output_chunk_on_session_topic [OF n a, of "EncodeSenML 5" "''a.txt''" 5] n a
  show ?thesis
    by (auto simp: Write_cases cut_off_session_def EncodeSenML_def record_object_def
        opt_field_def publish_ok_def terminal_def resetCounter_def second_def word_sless_alt)
qed

section \<open>Properties of Bootstrap\<close>

subsection \<open>Signed and unsigned readings of 64 bits\<close>

declare retry_loop.simps [simp del]

lemma sint_nonneg_uint:
  fixes r :: "64 word"
  assumes "0 \<le> sint r"
  shows "uint r = sint r"
proof -
  have "sint r < 2 ^ 63"
    using sint_lt [of r] by simp
  then have "sint r < 2 ^ 64"
    by simp
  with assms have "take_bit 64 (sint r) = sint r"
    by (simp add: take_bit_int_eq_self)
  then show ?thesis
    using uint_sint [of r] by simp
qed

lemma less_sint_unat:
  fixes r :: "64 word"
  assumes "int m < sint r"
  shows "m < unat r"
proof -
  from assms have "0 \<le> sint r"
    by linarith
  then have "uint r = sint r"
    by (rule sint_nonneg_uint)
  with assms have "int m < int (unat r)"
    by simp
  then show ?thesis
    by (simp only: of_nat_less_iff)
qed

lemma eq_sint_unat:
  fixes r :: "64 word"
  assumes "int m = sint r"
  shows "m = unat r"
proof -
  from assms have "0 \<le> sint r"
    by linarith
  then have "uint r = sint r"
    by (rule sint_nonneg_uint)
  with assms have "int m = int (unat r)"
    by simp
  then show ?thesis
    by (simp only: of_nat_eq_iff)
qed

lemma delay_in_range:
  fixes d :: "64 word"
  assumes "unat d * 1000000000 < 2 ^ 63"
  shows "sint (retry_delay d) = int (unat d) * 1000000000"
proof -
  have e: "retry_delay d = word_of_int (uint d * 1000000000)"
    by (simp add: retry_delay_def second_def)
  have b: "uint d * 1000000000 < 2 ^ 63"
    using assms by (metis of_nat_less_iff of_nat_mult of_nat_numeral of_nat_power uint_nat)
  have "(- (2 ^ 63) :: int) \<le> 0"
    by simp
  also have "0 \<le> uint d * 1000000000"
    by simp
  finally have "- (2 ^ 63) \<le> uint d * 1000000000" .
  with b have "signed_take_bit 63 (uint d * 1000000000) = uint d * 1000000000"
    by (intro signed_take_bit_int_eq_self) simp_all
  then show ?thesis
    by (simp only: e sint_sbintrunc') simp
qed

subsection \<open>The retry loop\<close>

lemma getConfig_quiet:
  "getConfig w k a b c d = (dc, e, ev) \<Longrightarrow> attempts ev = [] \<and> filter is_Save ev = []"
  by (auto simp: getConfig_def attempts_def Let_def
      split: option.splits sum.splits if_splits)

lemma loop_finished:
  "\<not> i < sint r \<Longrightarrow> retry_loop w cfg r d i dc = (Finished, dc, [])"
  by (simp add: retry_loop.simps)

lemma loop_broke:
  "i < sint r \<Longrightarrow> getConfig w (nat i) (ID cfg) (Key cfg) (URL cfg) (SkipTLS cfg) = (dc1, None, ev) \<Longrightarrow>
   retry_loop w cfg r d i dc = (Broke, dc1, Fetch (nat i) # ev)"
  by (simp add: retry_loop.simps)

lemma loop_returned:
  "i < sint r \<Longrightarrow> getConfig w (nat i) (ID cfg) (Key cfg) (URL cfg) (SkipTLS cfg) = (dc1, Some err, ev) \<Longrightarrow>
   i = sint r - 1 \<Longrightarrow>
   retry_loop w cfg r d i dc =
     (Returned, dc1,
      Fetch (nat i) # ev @ [Logged Error ''Fetching bootstrap failed'', Logged Debug ''Retrying...'',
         Sleep (retry_delay d), Logged Warn ''Retries exhausted'',
         Logged Info ''Continuing with local config''])"
  by (simp add: retry_loop.simps)

lemma loop_again:
  "i < sint r \<Longrightarrow> getConfig w (nat i) (ID cfg) (Key cfg) (URL cfg) (SkipTLS cfg) = (dc1, Some err, ev) \<Longrightarrow>
   i \<noteq> sint r - 1 \<Longrightarrow> retry_loop w cfg r d (i + 1) dc1 = (ex, dc2, tr2) \<Longrightarrow>
   retry_loop w cfg r d i dc =
     (ex, dc2,
      Fetch (nat i) # ev @ [Logged Error ''Fetching bootstrap failed'', Logged Debug ''Retrying...'',
         Sleep (retry_delay d)] @ tr2)"
  by (simp add: retry_loop.simps)

lemma attempts_append: "attempts (xs @ ys) = attempts xs @ attempts ys"
  by (simp add: attempts_def)

lemma attempts_Cons:
  "attempts (x # xs) = (if is_Fetch x \<or> is_Sleep x then x # attempts xs else attempts xs)"
  by (simp add: attempts_def)

lemma attempts_Nil: "attempts [] = []"
  by (simp add: attempts_def)

lemma loop_shape:
  "0 \<le> i \<Longrightarrow> retry_loop w cfg r d i dc = (ex, dc', tr) \<Longrightarrow>
   \<exists>m. attempts tr = failed_attempts (retry_delay d) (nat i) m @ (if ex = Broke then [Fetch (nat i + m)] else []) \<and>
       (\<forall>j<m. fetch_fails w cfg (nat i + j)) \<and>
       (ex = Broke \<longrightarrow> i + int m < sint r \<and>
          (\<exists>ev. getConfig w (nat i + m) (ID cfg) (Key cfg) (URL cfg) (SkipTLS cfg) = (dc', None, ev))) \<and>
       (ex = Returned \<longrightarrow> i + int m = sint r \<and> 0 < m \<and> Logged Warn ''Retries exhausted'' \<in> set tr) \<and>
       (ex = Finished \<longrightarrow> m = 0 \<and> sint r \<le> i \<and> dc' = dc) \<and>
       filter is_Save tr = []"
proof (induction "nat (sint r - i)" arbitrary: i dc ex dc' tr rule: less_induct)
  case less
  let ?g = "getConfig w (nat i) (ID cfg) (Key cfg) (URL cfg) (SkipTLS cfg)"
  show ?case
  proof (cases "i < sint r")
    case False
    with less.prems loop_finished [OF False, of w cfg d dc]
    have "ex = Finished" "dc' = dc" "tr = []" by simp_all
    with False show ?thesis
      by (intro exI [of _ 0]) (simp add: attempts_Nil)
  next
    case True
    obtain dc1 e ev where g: "?g = (dc1, e, ev)"
      by (cases ?g) auto
    note q = getConfig_quiet [OF g]
    show ?thesis
    proof (cases e)
      case None
      with less.prems loop_broke [OF True, of w cfg dc1 ev d dc] g
      have "ex = Broke" "dc' = dc1" "tr = Fetch (nat i) # ev" by simp_all
      with True g None q show ?thesis
        by (intro exI [of _ 0]) (simp add: attempts_Cons)
    next
      case (Some err)
      have ff: "fetch_fails w cfg (nat i)"
        by (simp add: fetch_fails_def g Some)
      show ?thesis
      proof (cases "i = sint r - 1")
        case last: True
        from less.prems loop_returned [OF True _ last, of w cfg dc1 err ev d dc] g Some
        have r: "ex = Returned" "dc' = dc1"
          "tr = Fetch (nat i) # ev @ [Logged Error ''Fetching bootstrap failed'', Logged Debug ''Retrying...'',
             Sleep (retry_delay d), Logged Warn ''Retries exhausted'',
             Logged Info ''Continuing with local config'']"
          by simp_all
        show ?thesis
          using q ff last
          by (intro exI [of _ 1]) (simp add: r attempts_Cons attempts_append attempts_Nil)
      next
        case more: False
        obtain ex2 dc2 tr2 where rec: "retry_loop w cfg r d (i + 1) dc1 = (ex2, dc2, tr2)"
          by (cases "retry_loop w cfg r d (i + 1) dc1") auto
        from less.prems loop_again [OF True _ more rec, of err ev dc] g Some
        have r: "ex = ex2" "dc' = dc2"
          "tr = Fetch (nat i) # ev @ [Logged Error ''Fetching bootstrap failed'', Logged Debug ''Retrying...'',
             Sleep (retry_delay d)] @ tr2"
          by simp_all
        have "nat (sint r - (i + 1)) < nat (sint r - i)"
          using True by simp
        from less.hyps [OF this _ rec] less.prems(1)
        obtain m where m:
          "attempts tr2 = failed_attempts (retry_delay d) (nat (i + 1)) m @ (if ex2 = Broke then [Fetch (nat (i + 1) + m)] else [])"
          "\<forall>j<m. fetch_fails w cfg (nat (i + 1) + j)"
          "ex2 = Broke \<longrightarrow> i + 1 + int m < sint r \<and>
            (\<exists>ev. getConfig w (nat (i + 1) + m) (ID cfg) (Key cfg) (URL cfg) (SkipTLS cfg) = (dc2, None, ev))"
          "ex2 = Returned \<longrightarrow> i + 1 + int m = sint r \<and> 0 < m \<and> Logged Warn ''Retries exhausted'' \<in> set tr2"
          "ex2 = Finished \<longrightarrow> m = 0 \<and> sint r \<le> i + 1 \<and> dc2 = dc1"
          "filter is_Save tr2 = []"
          by auto
        have suc: "nat (i + 1) = Suc (nat i)"
          using less.prems(1) by simp
        have nofin: "ex2 \<noteq> Finished"
          using m(5) True more by auto
        have fails: "\<forall>j<Suc m. fetch_fails w cfg (nat i + j)"
        proof (intro allI impI)
          fix j assume "j < Suc m"
          then show "fetch_fails w cfg (nat i + j)"
            using ff m(2) suc by (cases j) auto
        qed
        show ?thesis
          apply (rule exI [of _ "Suc m"])
          using m(1,3,4,6) q nofin fails
          apply (simp add: r attempts_Cons attempts_append attempts_Nil suc del: all_simps)
          apply (cases ex2; simp add: algebra_simps)
          done
      qed
    qed
  qed
qed


lemma fetch_count_attempts: "fetch_count tr = fetch_count (attempts tr)"
proof -
  have "(\<lambda>x. (is_Fetch x \<or> is_Sleep x) \<and> is_Fetch x) = is_Fetch"
    by auto
  then show ?thesis
    by (simp add: fetch_count_def attempts_def)
qed

lemma fetch_count_failed: "fetch_count (failed_attempts d i m) = m"
  by (induction m arbitrary: i) (simp_all add: fetch_count_def)

lemma fetch_count_append: "fetch_count (xs @ ys) = fetch_count xs + fetch_count ys"
  by (simp add: fetch_count_def)

lemma saveExportConfig_quiet: "attempts (saveExportConfig w e) = []"
  by (simp add: saveExportConfig_def attempts_def Let_def split: option.splits)

lemma Bootstrap_loop:
  assumes "ParseUint (Retries cfg) = Inr r" and "r \<noteq> 0"
    and "ParseUint (RetryDelaySec cfg) = Inr d"
    and "retry_loop w cfg r d 0 zero_deviceConfig = (ex, dc, tr)"
  shows "\<exists>res rest. Bootstrap w cfg file = (res, Logged Info ''Requesting config'' # tr @ rest) \<and>
           attempts rest = [] \<and>
           (ex = Returned \<longrightarrow> res = None \<and> rest = []) \<and>
           (ex \<noteq> Returned \<and> length (MainfluxChannels dc) < 2 \<longrightarrow>
              res = Some ErrMalformedEntity \<and> rest = [])"
proof (cases "ex = Returned")
  case True
  with assms show ?thesis
    by (simp add: Bootstrap_def attempts_Nil)
next
  case False
  show ?thesis
  proof (cases "length (MainfluxChannels dc) < 2")
    case True
    with False assms show ?thesis
      by (cases ex) (simp_all add: Bootstrap_def attempts_Nil)
  next
    case many: False
    with False assms show ?thesis
      by (cases ex)
        (simp_all add: Bootstrap_def Let_def attempts_append attempts_Cons attempts_Nil
          saveExportConfig_quiet)
  qed
qed

lemma loop_shape0:
  assumes "retry_loop w cfg r d 0 dc = (ex, dc', tr)"
  shows "\<exists>m. attempts tr = failed_attempts (retry_delay d) 0 m @ (if ex = Broke then [Fetch m] else []) \<and>
       (\<forall>j<m. fetch_fails w cfg j) \<and>
       (ex = Broke \<longrightarrow> int m < sint r \<and>
          (\<exists>ev. getConfig w m (ID cfg) (Key cfg) (URL cfg) (SkipTLS cfg) = (dc', None, ev))) \<and>
       (ex = Returned \<longrightarrow> int m = sint r \<and> 0 < m \<and> Logged Warn ''Retries exhausted'' \<in> set tr) \<and>
       (ex = Finished \<longrightarrow> m = 0 \<and> sint r \<le> 0 \<and> dc' = dc) \<and>
       filter is_Save tr = []"
  using loop_shape [of 0, OF _ assms] by (cases "ex = Broke") simp_all

lemma attempts_failed: "attempts (failed_attempts d i m) = failed_attempts d i m"
  by (induction m arbitrary: i) (simp_all add: attempts_Nil attempts_Cons)

text \<open>
  C7. With a retry count that parses and is not zero and a delay that parses:
  \<open>getConfig\<close> is called at most as often as the retry count says; the fetches and
  sleeps of the run are failed fetches, each followed by a sleep of the configured delay
  (as \<open>time.Duration(retryDelaySec) * time.Second\<close>), with at most one last fetch that
  succeeded; when every one of the configured fetches has been made and has failed,
  \<open>Bootstrap\<close> returns no error, has logged the warning and has saved nothing; and for
  a delay whose nanoseconds fit an \<open>int64\<close> the duration slept is that many seconds.
\<close>

theorem bootstrap_retries_bounded_not_fatal:
  assumes "ParseUint (Retries cfg) = Inr retries" and "retries \<noteq> 0"
    and "ParseUint (RetryDelaySec cfg) = Inr delay"
    and "Bootstrap w cfg file = (res, tr)"
  shows "fetch_count tr \<le> unat retries \<and>
         (\<exists>m. attempts tr = failed_attempts (retry_delay delay) 0 m \<or>
              attempts tr = failed_attempts (retry_delay delay) 0 m @ [Fetch m]) \<and>
         ((\<forall>k<unat retries. fetch_fails w cfg k) \<and> fetch_count tr = unat retries \<longrightarrow>
            res = None \<and> Logged Warn ''Retries exhausted'' \<in> set tr \<and>
            attempts tr = failed_attempts (retry_delay delay) 0 (unat retries) \<and>
            filter is_Save tr = []) \<and>
         (unat delay * 1000000000 < 2 ^ 63 \<longrightarrow>
            sint (retry_delay delay) = int (unat delay) * 1000000000)"
proof -
  obtain ex dc ltr where loop: "retry_loop w cfg retries delay 0 zero_deviceConfig = (ex, dc, ltr)"
    by (cases "retry_loop w cfg retries delay 0 zero_deviceConfig") auto
  from Bootstrap_loop [OF assms(1-3) loop, of "file"] assms(4)
  obtain rest where tr: "tr = Logged Info ''Requesting config'' # ltr @ rest"
    and rest: "attempts rest = []"
    and ret: "ex = Returned \<longrightarrow> res = None \<and> rest = []"
    by auto
  from loop_shape0 [OF loop]
  obtain m where att: "attempts ltr = failed_attempts (retry_delay delay) 0 m @
        (if ex = Broke then [Fetch m] else [])"
    and fails: "\<forall>j<m. fetch_fails w cfg j"
    and broke: "ex = Broke \<longrightarrow> int m < sint retries \<and>
          (\<exists>ev. getConfig w m (ID cfg) (Key cfg) (URL cfg) (SkipTLS cfg) = (dc, None, ev))"
    and returned: "ex = Returned \<longrightarrow> int m = sint retries \<and> 0 < m \<and>
          Logged Warn ''Retries exhausted'' \<in> set ltr"
    and finished: "ex = Finished \<longrightarrow> m = 0 \<and> sint retries \<le> 0 \<and> dc = zero_deviceConfig"
    and nosave: "filter is_Save ltr = []"
    by blast
  have atr: "attempts tr = attempts ltr"
    by (simp add: tr attempts_Cons attempts_append rest)
  have cnt: "fetch_count tr = m + (if ex = Broke then 1 else 0)"
    by (simp add: fetch_count_attempts [of tr] atr att fetch_count_append fetch_count_failed)
       (simp add: fetch_count_def)
  have a: "fetch_count tr \<le> unat retries"
  proof (cases ex)
    case Broke
    with broke have "m < unat retries"
      by (simp add: less_sint_unat)
    with Broke cnt show ?thesis by simp
  next
    case Returned
    with returned have "m = unat retries"
      by (simp add: eq_sint_unat)
    with Returned cnt show ?thesis by simp
  next
    case Finished
    with finished cnt show ?thesis by simp
  qed
  have b: "\<exists>m. attempts tr = failed_attempts (retry_delay delay) 0 m \<or>
              attempts tr = failed_attempts (retry_delay delay) 0 m @ [Fetch m]"
    using atr att by (cases "ex = Broke") auto
  have c: "res = None \<and> Logged Warn ''Retries exhausted'' \<in> set tr \<and>
            attempts tr = failed_attempts (retry_delay delay) 0 (unat retries) \<and>
            filter is_Save tr = []"
    if all: "\<forall>k<unat retries. fetch_fails w cfg k" and full: "fetch_count tr = unat retries"
  proof (cases ex)
    case Broke
    with broke have "m < unat retries"
      by (simp add: less_sint_unat)
    with all have "fetch_fails w cfg m"
      by simp
    with broke Broke show ?thesis
      by (auto simp: fetch_fails_def)
  next
    case Returned
    with returned have "m = unat retries"
      by (simp add: eq_sint_unat)
    with Returned returned ret atr att nosave show ?thesis
      by (simp add: tr)
  next
    case Finished
    with finished cnt full have "unat retries = 0"
      by simp
    with assms(2) show ?thesis
      by (simp add: unat_eq_0)
  qed
  have d: "unat delay * 1000000000 < 2 ^ 63 \<longrightarrow>
            sint (retry_delay delay) = int (unat delay) * 1000000000"
    by (simp add: delay_in_range)
  from a b c d show ?thesis
    by blast
qed

text \<open>
  C9. When the retry count parses to zero, \<open>Bootstrap\<close> returns no error and has done
  nothing but log one line: no fetch, no configuration built, nothing saved (and the
  delay is not even parsed).
\<close>

theorem bootstrap_zero_retries_skips:
  assumes "ParseUint (Retries cfg) = Inr 0"
  shows "Bootstrap w cfg file =
           (None, [Logged Info ''No bootstrapping, environment variables will be used''])"
  using assms by (simp add: Bootstrap_def)

theorem bootstrap_zero_retries_skips_witness:
  "ParseUint (Retries (example_Config\<lparr>Retries := ''0'', RetryDelaySec := ''soon''\<rparr>)) = Inr 0 \<and>
   Bootstrap channelless_world (example_Config\<lparr>Retries := ''0'', RetryDelaySec := ''soon''\<rparr>)
       ''config.toml'' =
     (None, [Logged Info ''No bootstrapping, environment variables will be used''])"
proof -
  have p: "ParseUint (Retries (example_Config\<lparr>Retries := ''0'', RetryDelaySec := ''soon''\<rparr>)) = Inr 0"
    by (simp add: ParseUint_def cutoff_def)
  from bootstrap_zero_retries_skips [OF p] p show ?thesis
    by simp
qed

text \<open>
  C10. When the \<open>k\<close>-th fetch is the first to succeed, within the retry count, and the
  device configuration it returns has fewer than two channels, \<open>Bootstrap\<close> returns
  \<open>ErrMalformedEntity\<close> and its trace holds no save, neither of the agent's
  configuration nor of the export service's.
\<close>

theorem bootstrap_too_few_channels:
  assumes "ParseUint (Retries cfg) = Inr retries" and "retries \<noteq> 0"
    and "ParseUint (RetryDelaySec cfg) = Inr delay"
    and "int k < sint retries"
    and "\<forall>j<k. fetch_fails w cfg j"
    and "getConfig w k (ID cfg) (Key cfg) (URL cfg) (SkipTLS cfg) = (dc, None, ev)"
    and "length (MainfluxChannels dc) < 2"
  shows "\<exists>tr. Bootstrap w cfg file = (Some ErrMalformedEntity, tr) \<and> filter is_Save tr = []"
proof -
  obtain ex dc' ltr where loop: "retry_loop w cfg retries delay 0 zero_deviceConfig = (ex, dc', ltr)"
    by (cases "retry_loop w cfg retries delay 0 zero_deviceConfig") auto
  from loop_shape0 [OF loop]
  obtain m where fails: "\<forall>j<m. fetch_fails w cfg j"
    and broke: "ex = Broke \<longrightarrow> int m < sint retries \<and>
          (\<exists>ev. getConfig w m (ID cfg) (Key cfg) (URL cfg) (SkipTLS cfg) = (dc', None, ev))"
    and returned: "ex = Returned \<longrightarrow> int m = sint retries \<and> 0 < m \<and>
          Logged Warn ''Retries exhausted'' \<in> set ltr"
    and finished: "ex = Finished \<longrightarrow> m = 0 \<and> sint retries \<le> 0 \<and> dc' = zero_deviceConfig"
    and nosave: "filter is_Save ltr = []"
    by blast
  have ok: "\<not> fetch_fails w cfg k"
    by (simp add: fetch_fails_def assms(6))
  have ex: "ex = Broke"
  proof (cases ex)
    case Broke
    then show ?thesis .
  next
    case Returned
    with returned assms(4) have "k < m"
      by simp
    with fails ok show ?thesis
      by simp
  next
    case Finished
    with finished assms(4) show ?thesis
      by simp
  qed
  from ex broke obtain ev' where
    g: "getConfig w m (ID cfg) (Key cfg) (URL cfg) (SkipTLS cfg) = (dc', None, ev')"
    by auto
  then have "\<not> fetch_fails w cfg m"
    by (simp add: fetch_fails_def)
  with fails ok assms(5) have "m = k"
    by (metis linorder_neqE_nat)
  with g assms(6) have dc: "dc' = dc"
    by simp
  from Bootstrap_loop [OF assms(1-3) loop, of "file"] ex dc assms(7)
  have "Bootstrap w cfg file = (Some ErrMalformedEntity, Logged Info ''Requesting config'' # ltr)"
    by auto
  with nosave show ?thesis
    by simp
qed

text \<open>
  A retry count of \<open>2^63\<close> or more is negative as an \<open>int\<close>: the loop makes no
  fetch and \<open>Bootstrap\<close> fails on the empty device configuration.
\<close>

lemma bootstrap_retries_beyond_int:
  assumes "ParseUint (Retries cfg) = Inr retries" and "sint retries < 0"
    and "ParseUint (RetryDelaySec cfg) = Inr delay"
  shows "Bootstrap w cfg file = (Some ErrMalformedEntity, [Logged Info ''Requesting config''])"
proof -
  from assms(2) have "retries \<noteq> 0"
    by auto
  moreover from assms(2)
  have "retry_loop w cfg retries delay 0 zero_deviceConfig = (Finished, zero_deviceConfig, [])"
    by (simp add: loop_finished)
  ultimately show ?thesis
    using assms(1,3) by (simp add: Bootstrap_def zero_deviceConfig_def)
qed

subsection \<open>Two runs\<close>

lemma channelless_fetch:
  "getConfig channelless_world 0 (ID example_Config) (Key example_Config) (URL example_Config)
      (SkipTLS example_Config) =
     (zero_deviceConfig, None,
      [Request 0 ''http://localhost:9013/things/bootstrap/gw1'' ''Thing secret'', Printed []])"
  by (simp add: getConfig_def channelless_world_def unreachable_world_def example_Config_def
      zero_deviceConfig_def zero_ServicesConfig_def)

theorem bootstrap_too_few_channels_witness:
  "Bootstrap channelless_world example_Config ''config.toml'' =
     (Some ErrMalformedEntity,
      [Logged Info ''Requesting config'', Fetch 0,
       Request 0 ''http://localhost:9013/things/bootstrap/gw1'' ''Thing secret'', Printed []])"
proof -
  have r: "ParseUint (Retries example_Config) = Inr 2"
    by (simp add: ParseUint_def cutoff_def example_Config_def)
  have d: "ParseUint (RetryDelaySec example_Config) = Inr 10"
    by (simp add: ParseUint_def cutoff_def example_Config_def)
  have l: "length (MainfluxChannels zero_deviceConfig) < 2"
    by (simp add: zero_deviceConfig_def)
  have "\<exists>tr. Bootstrap channelless_world example_Config ''config.toml'' =
      (Some ErrMalformedEntity, tr) \<and> filter is_Save tr = []"
    by (rule bootstrap_too_few_channels [OF r _ d _ _ channelless_fetch l]) simp_all
  moreover have "retry_loop channelless_world example_Config 2 10 0 zero_deviceConfig =
      (Broke, zero_deviceConfig,
       [Fetch 0, Request 0 ''http://localhost:9013/things/bootstrap/gw1'' ''Thing secret'',
        Printed []])"
    using loop_broke [of 0 2 channelless_world example_Config zero_deviceConfig _ 10
        zero_deviceConfig] channelless_fetch
    by simp
  ultimately show ?thesis
    using Bootstrap_loop [OF r _ d, of channelless_world Broke zero_deviceConfig _ "''config.toml''"] l
    by auto
qed

lemma unreachable_fetch:
  "getConfig unreachable_world k (ID example_Config) (Key example_Config) (URL example_Config)
      (SkipTLS example_Config) =
     (zero_deviceConfig, Some (New ''connection refused''),
      [Request k ''http://localhost:9013/things/bootstrap/gw1'' ''Thing secret''])"
  by (simp add: getConfig_def unreachable_world_def example_Config_def)

lemma unreachable_Bootstrap:
  "Bootstrap unreachable_world example_Config ''config.toml'' = (None, unreachable_trace)"
proof -
  have r: "ParseUint (Retries example_Config) = Inr 2"
    by (simp add: ParseUint_def cutoff_def example_Config_def)
  have d: "ParseUint (RetryDelaySec example_Config) = Inr 10"
    by (simp add: ParseUint_def cutoff_def example_Config_def)
  have l1: "retry_loop unreachable_world example_Config 2 10 1 zero_deviceConfig =
      (Returned, zero_deviceConfig,
       [Fetch 1, Request 1 ''http://localhost:9013/things/bootstrap/gw1'' ''Thing secret'',
        Logged Error ''Fetching bootstrap failed'', Logged Debug ''Retrying...'',
        Sleep (retry_delay 10),
        Logged Warn ''Retries exhausted'', Logged Info ''Continuing with local config''])"
    using loop_returned [of 1 2 unreachable_world example_Config zero_deviceConfig _ _ 10
        zero_deviceConfig] unreachable_fetch [of 1]
    by simp
  have l0: "retry_loop unreachable_world example_Config 2 10 0 zero_deviceConfig =
      (Returned, zero_deviceConfig, tl unreachable_trace)"
    using loop_again [of 0 2 unreachable_world example_Config zero_deviceConfig _ _ 10
        Returned zero_deviceConfig _ zero_deviceConfig] unreachable_fetch [of 0] l1
    by (simp add: unreachable_trace_def)
  show ?thesis
    using Bootstrap_loop [OF r _ d l0, of "''config.toml''"]
    by (simp add: unreachable_trace_def)
qed

lemma failed_attempts_2:
  "failed_attempts d i 2 = [Fetch i, Sleep d, Fetch (Suc i), Sleep d]"
  by (simp add: numeral_2_eq_2)

theorem bootstrap_retries_bounded_not_fatal_witness:
  "Bootstrap unreachable_world example_Config ''config.toml'' = (None, unreachable_trace) \<and>
   fetch_count unreachable_trace = 2 \<and>
   attempts unreachable_trace =
     [Fetch 0, Sleep (10 * second), Fetch 1, Sleep (10 * second)] \<and>
   sint (10 * second) = 10000000000"
proof -
  have r: "ParseUint (Retries example_Config) = Inr 2"
    by (simp add: ParseUint_def cutoff_def example_Config_def)
  have d: "ParseUint (RetryDelaySec example_Config) = Inr 10"
    by (simp add: ParseUint_def cutoff_def example_Config_def)
  have n: "(2 :: 64 word) \<noteq> 0"
    by simp
  have f: "\<forall>k<unat (2 :: 64 word). fetch_fails unreachable_world example_Config k"
    by (simp add: fetch_fails_def unreachable_fetch)
  have c: "fetch_count unreachable_trace = unat (2 :: 64 word)"
    by (simp add: fetch_count_def unreachable_trace_def)
  from bootstrap_retries_bounded_not_fatal [OF r n d unreachable_Bootstrap] f c
  have "attempts unreachable_trace = failed_attempts (retry_delay 10) 0 (unat (2 :: 64 word))"
    and "sint (retry_delay 10) = int (unat (10 :: 64 word)) * 1000000000"
    by simp_all
  with c unreachable_Bootstrap show ?thesis
    by (simp add: retry_delay_def failed_attempts_2)
qed

end
